theory Spec2Isabelle
  imports Complex_Main
begin

section \<open>Host collaborators: query parameters and locations\<close>

text \<open>
  \<^verbatim>\<open>URLSearchParams\<close> is an ordered list of key/value pairs in which a key may repeat.
  The text form of a query string (\<^verbatim>\<open>toString()\<close> followed by the router parsing it
  again) is not modelled: a query string is identified with the pair list it denotes.
\<close>

type_synonym params = "(string \<times> string) list"

definition getAll :: "string \<Rightarrow> params \<Rightarrow> string list" where
  "getAll k ps = map snd (filter (\<lambda>kv. fst kv = k) ps)"

definition append_param :: "string \<Rightarrow> string \<Rightarrow> params \<Rightarrow> params" where
  "append_param k v ps = ps @ [(k, v)]"

definition delete_param :: "string \<Rightarrow> params \<Rightarrow> params" where
  "delete_param k ps = filter (\<lambda>kv. fst kv \<noteq> k) ps"

text \<open>\<^verbatim>\<open>xs.forEach((path) => sp.append("drawer", path))\<close>\<close>

fun append_each :: "string \<Rightarrow> string list \<Rightarrow> params \<Rightarrow> params" where
  "append_each k [] ps = ps"
| "append_each k (v # vs) ps = append_each k vs (append_param k v ps)"

text \<open>\<^verbatim>\<open>xs.slice(0, -1)\<close>: every element but the last; the empty list stays empty.\<close>

definition slice_0_m1 :: "'a list \<Rightarrow> 'a list" where
  "slice_0_m1 xs = take (length xs - 1) xs"

text \<open>The argument of \<^verbatim>\<open>navigate\<close>: a pathname and a query string.\<close>

record location =
  pathname :: string
  search :: params

section \<open>Stack store (useDrawerStack)\<close>

record DrawerStackItem =
  item_id :: string
  path :: string
  level :: nat

text \<open>Decimal text of an array index, as a template literal prints it.\<close>

definition digit_char :: "nat \<Rightarrow> char" where
  "digit_char d = ''0123456789'' ! d"

function string_of_nat :: "nat \<Rightarrow> string" where
  "string_of_nat n =
     (if n < 10 then [digit_char n]
      else string_of_nat (n div 10) @ [digit_char (n mod 10)])"
  by pat_completeness auto
termination
  by (relation "measure (\<lambda>n. n)") auto

declare string_of_nat.simps [simp del]

text \<open>\<^verbatim>\<open>xs.map((x, index) => f(x, index))\<close>, the index counted from \<open>i\<close>.\<close>

fun map_index :: "('a \<Rightarrow> nat \<Rightarrow> 'b) \<Rightarrow> nat \<Rightarrow> 'a list \<Rightarrow> 'b list" where
  "map_index f i [] = []"
| "map_index f i (x # xs) = f x i # map_index f (Suc i) xs"

definition deriveStack :: "string list \<Rightarrow> DrawerStackItem list" where
  "deriveStack drawerParams =
     map_index (\<lambda>p index. \<lparr>item_id = ''drawer-'' @ string_of_nat index, path = p, level = index\<rparr>)
       0 drawerParams"

definition drawerStack :: "params \<Rightarrow> DrawerStackItem list" where
  "drawerStack searchParams = deriveStack (getAll ''drawer'' searchParams)"

definition hasDrawers :: "params \<Rightarrow> bool" where
  "hasDrawers searchParams = (length (drawerStack searchParams) > 0)"

text \<open>\<^verbatim>\<open>drawerStack[drawerStack.length - 1] || null\<close>\<close>

definition currentDrawer :: "params \<Rightarrow> DrawerStackItem option" where
  "currentDrawer searchParams =
     (let st = drawerStack searchParams in
      if st = [] then None else Some (st ! (length st - 1)))"

text \<open>
  What one render of the hook closes over: the \<^verbatim>\<open>useSearchParams\<close> value, the
  \<^verbatim>\<open>useLocation\<close> pathname, and (read only at call time, by \<^verbatim>\<open>pushDrawer\<close>) the live
  \<^verbatim>\<open>window.location.search\<close>.
\<close>

record hook =
  searchParams :: params
  loc_pathname :: string
  window_search :: params

text \<open>
  Every mutator returns the location it hands to \<^verbatim>\<open>navigate\<close> (always with
  \<^verbatim>\<open>replace: false\<close>), or \<open>None\<close> when it returns without navigating.
\<close>

definition pushDrawer :: "hook \<Rightarrow> string \<Rightarrow> location option" where
  "pushDrawer h p =
     (let currentSearchParams = append_param ''drawer'' p (window_search h) in
      Some \<lparr>pathname = loc_pathname h, search = currentSearchParams\<rparr>)"

definition popDrawer :: "hook \<Rightarrow> location option" where
  "popDrawer h =
     (let drawerParams = getAll ''drawer'' (searchParams h) in
      if length drawerParams = 0 then None
      else
        let newSearchParams = delete_param ''drawer'' (searchParams h);
            newSearchParams = append_each ''drawer'' (slice_0_m1 drawerParams) newSearchParams
        in Some \<lparr>pathname = loc_pathname h, search = newSearchParams\<rparr>)"

definition closeAllDrawers :: "hook \<Rightarrow> location option" where
  "closeAllDrawers h =
     (let newSearchParams = delete_param ''drawer'' (searchParams h) in
      Some \<lparr>pathname = loc_pathname h, search = newSearchParams\<rparr>)"

definition replaceDrawer :: "hook \<Rightarrow> string \<Rightarrow> location option" where
  "replaceDrawer h p =
     (let drawerParams = getAll ''drawer'' (searchParams h);
          newSearchParams = delete_param ''drawer'' (searchParams h);
          newSearchParams =
            (if length drawerParams = 0 then append_param ''drawer'' p newSearchParams
             else append_param ''drawer'' p
                    (append_each ''drawer'' (slice_0_m1 drawerParams) newSearchParams))
      in Some \<lparr>pathname = loc_pathname h, search = newSearchParams\<rparr>)"

definition replaceDrawerStack :: "hook \<Rightarrow> string list \<Rightarrow> location option" where
  "replaceDrawerStack h paths =
     (let newSearchParams = delete_param ''drawer'' (searchParams h);
          newSearchParams = append_each ''drawer'' paths newSearchParams
      in Some \<lparr>pathname = loc_pathname h, search = newSearchParams\<rparr>)"

subsection \<open>The host: navigation followed by a render\<close>

text \<open>The hook as rendered from a location, with nothing stale.\<close>

definition render :: "location \<Rightarrow> hook" where
  "render l = \<lparr>searchParams = search l, loc_pathname = pathname l, window_search = search l\<rparr>"

text \<open>\<^verbatim>\<open>navigate\<close> makes its argument the current location; no call leaves it as it is.\<close>

definition navigate :: "location \<Rightarrow> location option \<Rightarrow> location" where
  "navigate l r = (case r of None \<Rightarrow> l | Some l' \<Rightarrow> l')"

datatype mutation =
  Push string | Pop | CloseAll | ReplaceTop string | ReplaceAll "string list"

fun mutate :: "hook \<Rightarrow> mutation \<Rightarrow> location option" where
  "mutate h (Push p) = pushDrawer h p"
| "mutate h Pop = popDrawer h"
| "mutate h CloseAll = closeAllDrawers h"
| "mutate h (ReplaceTop p) = replaceDrawer h p"
| "mutate h (ReplaceAll ps) = replaceDrawerStack h ps"

definition step :: "location \<Rightarrow> mutation \<Rightarrow> location" where
  "step l m = navigate l (mutate (render l) m)"

definition run :: "location \<Rightarrow> mutation list \<Rightarrow> location" where
  "run l ms = foldl step l ms"

definition persisted :: "location \<Rightarrow> string list" where
  "persisted l = getAll ''drawer'' (search l)"

section \<open>Route resolver (routeUtils)\<close>

text \<open>
  A \<^verbatim>\<open>RouteObject\<close> as far as this code reads it: an optional path, an optional
  element and its children. An absent \<^verbatim>\<open>children\<close> and an empty array both add
  nothing when flattened; both are the empty list here.
\<close>

datatype 'v RouteObject =
  RouteObject (route_path: "string option") (element: "'v option")
    (children: "'v RouteObject list")

text \<open>\<^verbatim>\<open>s.replace(/\/+/g, "/")\<close>: every run of slashes becomes one slash.\<close>

fun collapse_slashes :: "string \<Rightarrow> string" where
  "collapse_slashes [] = []"
| "collapse_slashes [c] = [c]"
| "collapse_slashes (c # d # cs) =
     (if c = CHR ''/'' \<and> d = CHR ''/'' then collapse_slashes (d # cs)
      else c # collapse_slashes (d # cs))"

text \<open>A JavaScript string is truthy unless it is absent or empty.\<close>

definition truthy :: "string option \<Rightarrow> bool" where
  "truthy p = (case p of None \<Rightarrow> False | Some s \<Rightarrow> s \<noteq> [])"

definition fullPath :: "string \<Rightarrow> string option \<Rightarrow> string" where
  "fullPath parentPath p =
     (if truthy p then
        (if parentPath = ''/'' then
           (if the p = ''/'' then ''/'' else ''/'' @ the p)
         else collapse_slashes (parentPath @ ''/'' @ the p))
      else parentPath)"

fun flattenRoute :: "'v RouteObject \<Rightarrow> string \<Rightarrow> 'v RouteObject list"
  and flattenRoutes :: "'v RouteObject list \<Rightarrow> string \<Rightarrow> 'v RouteObject list" where
  "flattenRoute (RouteObject p e cs) parentPath =
     RouteObject (Some (fullPath parentPath p)) e cs # flattenRoutes cs (fullPath parentPath p)"
| "flattenRoutes [] parentPath = []"
| "flattenRoutes (r # rs) parentPath = flattenRoute r parentPath @ flattenRoutes rs parentPath"

text \<open>\<^verbatim>\<open>path.split("?")[0]\<close>: the text before the first question mark.\<close>

definition split_query_0 :: "string \<Rightarrow> string" where
  "split_query_0 p = takeWhile (\<lambda>c. c \<noteq> CHR ''?'') p"

text \<open>
  \<^verbatim>\<open>matchPath\<close> belongs to the routing library, not to this package. It is a parameter
  \<open>matchPath pattern end pathname\<close>, returning the match data or \<open>None\<close>.
\<close>

type_synonym 'm matcher = "string \<Rightarrow> bool \<Rightarrow> string \<Rightarrow> 'm option"

fun find_loop :: "'m matcher \<Rightarrow> string \<Rightarrow> 'v RouteObject list \<Rightarrow> ('v RouteObject \<times> 'm) option" where
  "find_loop matchPath pn [] = None"
| "find_loop matchPath pn (r # rs) =
     (if \<not> truthy (route_path r) then find_loop matchPath pn rs
      else case matchPath (the (route_path r)) True pn of
             Some m \<Rightarrow> Some (r, m)
           | None \<Rightarrow> find_loop matchPath pn rs)"

definition findRouteAndMatch ::
  "'m matcher \<Rightarrow> string \<Rightarrow> 'v RouteObject list \<Rightarrow> ('v RouteObject \<times> 'm) option" where
  "findRouteAndMatch matchPath p routes = find_loop matchPath (split_query_0 p) routes"

text \<open>What the drawer body renders: one of two placeholders, or the route's element.\<close>

datatype ('v, 'm) rendered = RootRejected | NotFound string | Resolved 'v 'm

definition DrawerContent :: "'m matcher \<Rightarrow> string \<Rightarrow> 'v RouteObject list \<Rightarrow> ('v, 'm) rendered" where
  "DrawerContent matchPath p routes =
     (if p = ''/'' then RootRejected
      else
        let flatRoutes = flattenRoutes routes [];
            result = findRouteAndMatch matchPath p flatRoutes
        in case result of
             None \<Rightarrow> NotFound p
           | Some (route, m) \<Rightarrow>
               (case element route of None \<Rightarrow> NotFound p | Some e \<Rightarrow> Resolved e m))"

subsection \<open>Example data\<close>

text \<open>The route configuration of the package's usage example.\<close>

datatype page = RootLayout | RootPage | ProfilePage | SettingsPage

definition routeConfig :: "page RouteObject list" where
  "routeConfig =
     [RouteObject (Some ''/'') (Some RootLayout)
        [RouteObject (Some '''') (Some RootPage) [],
         RouteObject (Some ''profile'') (Some ProfilePage) [],
         RouteObject (Some ''settings'') (Some SettingsPage) []]]"

text \<open>
  A stand-in for the library's matcher in examples, for patterns without parameters or
  wildcards: with \<open>end\<close> the pathname must be the pattern, without it the pattern must
  be a prefix of the pathname. The match data is the matched text.
\<close>

definition literal_matchPath :: "string matcher" where
  "literal_matchPath pat e pn =
     (if (if e then pn = pat else take (length pat) pn = pat) then Some pat else None)"

section \<open>JavaScript numbers\<close>

text \<open>
  A JavaScript number is an IEEE 754 binary64 value. A finite one is modelled by the real
  it denotes, and each arithmetic operation returns the exact result rounded to the
  nearest binary64 value, ties to the even significand. Results beyond the largest
  finite number, infinities and NaN are not modelled: pointer coordinates and element
  heights are far from them.
\<close>

definition pow2 :: "int \<Rightarrow> real" where
  "pow2 e = (if 0 \<le> e then 2 ^ nat e else 1 / 2 ^ nat (- e))"

text \<open>The binary exponent of a positive \<open>x\<close>: the \<open>e\<close> with \<open>2 ^ e \<le> x < 2 ^ (e + 1)\<close>.\<close>

function expo :: "real \<Rightarrow> int" where
  "expo x =
     (if x \<le> 0 then 0
      else if x < 1 then expo (2 * x) - 1
      else if 2 \<le> x then expo (x / 2) + 1
      else 0)"
  by pat_completeness auto
termination
proof (relation "measure (\<lambda>x. if x \<le> 0 then 0 else if x < 1 then nat \<lceil>- log 2 x\<rceil>
                                else nat \<lfloor>log 2 x\<rfloor>)")
  show "wf (measure (\<lambda>x. if x \<le> 0 then 0 else if x < 1 then nat \<lceil>- log 2 x\<rceil>
                                else nat \<lfloor>log 2 x\<rfloor>))"
    by simp
next
  fix x :: real
  assume a: "\<not> x \<le> 0" "x < 1"
  then have l: "log 2 x < 0" by simp
  have m: "log 2 (2 * x) = 1 + log 2 x"
    using a by (simp add: log_mult)
  show "(2 * x, x) \<in> measure (\<lambda>x. if x \<le> 0 then 0 else if x < 1 then nat \<lceil>- log 2 x\<rceil>
                                else nat \<lfloor>log 2 x\<rfloor>)"
  proof (cases "2 * x < 1")
    case True
    have "\<lceil>- log 2 (2 * x)\<rceil> = \<lceil>- log 2 x\<rceil> - 1"
      unfolding m by (simp add: algebra_simps) linarith
    moreover have "0 < \<lceil>- log 2 x\<rceil>" using l by linarith
    ultimately show ?thesis using a True by simp
  next
    case False
    have "log 2 (2 * x) < 1" unfolding m using l by simp
    then have "\<lfloor>log 2 (2 * x)\<rfloor> \<le> 0" by linarith
    moreover have "0 < \<lceil>- log 2 x\<rceil>" using l by linarith
    ultimately show ?thesis using a False by simp
  qed
next
  fix x :: real
  assume a: "\<not> x \<le> 0" "\<not> x < 1" "2 \<le> x"
  have m: "log 2 (x / 2) = log 2 x - 1"
    using a by (simp add: log_divide)
  have "1 \<le> log 2 x" using a by (simp add: le_log_iff)
  then have p: "1 \<le> \<lfloor>log 2 x\<rfloor>" by linarith
  have "\<lfloor>log 2 (x / 2)\<rfloor> = \<lfloor>log 2 x\<rfloor> - 1"
    unfolding m by linarith
  with p a show "(x / 2, x) \<in> measure (\<lambda>x. if x \<le> 0 then 0 else if x < 1 then nat \<lceil>- log 2 x\<rceil>
                                else nat \<lfloor>log 2 x\<rfloor>)"
    by simp
qed

declare expo.simps [simp del]

definition round_half_even :: "real \<Rightarrow> int" where
  "round_half_even q =
     (let f = \<lfloor>q\<rfloor>; r = q - of_int f in
      if r < 1 / 2 then f
      else if 1 / 2 < r then f + 1
      else if even f then f else f + 1)"

text \<open>
  Rounding to binary64: 53 significant bits, and below the smallest normal number the
  fixed spacing of the subnormal ones.
\<close>

definition binary64 :: "real \<Rightarrow> real" where
  "binary64 x =
     (if x = 0 then 0
      else
        let e = max (expo \<bar>x\<bar>) (- 1022);
            ulp = pow2 (e - 52)
        in sgn x * of_int (round_half_even (\<bar>x\<bar> / ulp)) * ulp)"

definition js_sub :: "real \<Rightarrow> real \<Rightarrow> real" where
  "js_sub x y = binary64 (x - y)"

definition js_mul :: "real \<Rightarrow> real \<Rightarrow> real" where
  "js_mul x y = binary64 (x * y)"

definition js_div :: "real \<Rightarrow> real \<Rightarrow> real" where
  "js_div x y = binary64 (x / y)"

section \<open>Gesture recognizer (the custom drawer's drag handlers)\<close>

text \<open>
  Coordinates and extents are JavaScript numbers, and the literal \<^verbatim>\<open>0.3\<close> is the binary64
  value nearest to three tenths. \<open>lastEvent\<close> records whether
  \<^verbatim>\<open>lastEventRef.current\<close> holds an event. \<open>isDragging\<close> and \<open>dragOffset\<close> are the state
  of the drawer root, shared by its content and its handle; the other fields are the
  refs of the content.
\<close>

record drag_state =
  isDragging :: bool
  dragOffset :: real
  dragStartY :: "real option"
  initialHeight :: real
  lastEvent :: bool

text \<open>The listener calls a handler makes, in order.\<close>

datatype callback = OnOpenChange bool | OnDrag real | OnRelease bool

definition handleDragStart ::
  "bool \<Rightarrow> real \<Rightarrow> real option \<Rightarrow> drag_state \<Rightarrow> drag_state \<times> callback list" where
  "handleDragStart handleOnly clientY offsetHeight s =
     (if handleOnly then (s, [])
      else
        (s\<lparr>dragStartY := Some clientY,
           initialHeight := (case offsetHeight of Some h \<Rightarrow> h | None \<Rightarrow> initialHeight s),
           isDragging := True,
           lastEvent := True\<rparr>,
         [OnDrag 0]))"

definition handleDragMove :: "real \<Rightarrow> drag_state \<Rightarrow> drag_state \<times> callback list" where
  "handleDragMove clientY s =
     (if \<not> isDragging s \<or> dragStartY s = None then (s, [])
      else
        let deltaY = js_sub clientY (the (dragStartY s));
            clampedDelta = max 0 deltaY
        in (s\<lparr>dragOffset := clampedDelta, lastEvent := True\<rparr>,
            if initialHeight s > 0 then [OnDrag (js_div clampedDelta (initialHeight s))] else []))"

definition handleDragEnd :: "bool \<Rightarrow> drag_state \<Rightarrow> drag_state \<times> callback list" where
  "handleDragEnd event s =
     (if \<not> isDragging s then (s, [])
      else
        let finalEvent = (event \<or> lastEvent s);
            threshold = js_mul (initialHeight s) (binary64 0.3);
            shouldClose = (dragOffset s > threshold)
        in (s\<lparr>isDragging := False, dragStartY := None, lastEvent := False,
              dragOffset := (if shouldClose then dragOffset s else 0)\<rparr>,
            (if shouldClose then [OnOpenChange False] else []) @
            (if finalEvent then [OnRelease (\<not> shouldClose)] else [])))"

text \<open>The state with which the drawer root and its content are mounted.\<close>

definition initial_drag_state :: drag_state where
  "initial_drag_state =
     \<lparr>isDragging = False, dragOffset = 0, dragStartY = None, initialHeight = 0,
      lastEvent = False\<rparr>"

text \<open>
  The drag handle keeps refs of its own. Its handlers write the shared \<open>isDragging\<close> and
  \<open>dragOffset\<close>, and never the refs of the content.
\<close>

record handle_refs =
  handle_dragStartY :: "real option"
  parentHeight :: real
  handle_lastEvent :: bool

definition DrawerHandle_handleDragStart ::
  "real \<Rightarrow> real option \<Rightarrow> drag_state \<times> handle_refs \<Rightarrow>
   (drag_state \<times> handle_refs) \<times> callback list" where
  "DrawerHandle_handleDragStart clientY contentHeight sr =
     (let s = fst sr; r = snd sr in
      ((s\<lparr>isDragging := True\<rparr>,
        r\<lparr>handle_dragStartY := Some clientY,
          parentHeight := (case contentHeight of Some h \<Rightarrow> h | None \<Rightarrow> parentHeight r),
          handle_lastEvent := True\<rparr>),
       [OnDrag 0]))"

definition DrawerHandle_handleDragMove ::
  "real \<Rightarrow> drag_state \<times> handle_refs \<Rightarrow> (drag_state \<times> handle_refs) \<times> callback list" where
  "DrawerHandle_handleDragMove clientY sr =
     (let s = fst sr; r = snd sr in
      if handle_dragStartY r = None then (sr, [])
      else
        let deltaY = js_sub clientY (the (handle_dragStartY r));
            clampedDelta = max 0 deltaY
        in ((s\<lparr>dragOffset := clampedDelta\<rparr>, r\<lparr>handle_lastEvent := True\<rparr>),
            if parentHeight r > 0 then [OnDrag (js_div clampedDelta (parentHeight r))] else []))"

definition DrawerHandle_handleDragEnd ::
  "bool \<Rightarrow> drag_state \<times> handle_refs \<Rightarrow> (drag_state \<times> handle_refs) \<times> callback list" where
  "DrawerHandle_handleDragEnd event sr =
     (let s = fst sr; r = snd sr;
          finalEvent = (event \<or> handle_lastEvent r)
      in ((s\<lparr>isDragging := False\<rparr>,
           r\<lparr>handle_dragStartY := None, handle_lastEvent := False\<rparr>),
          if finalEvent then [OnRelease True] else []))"

section \<open>Animation choreographer (DrawerStack)\<close>

record ui =
  openDrawers :: "bool list"
  closingDrawers :: "nat set"
  draggingDrawers :: "nat set"

text \<open>
  \<^verbatim>\<open>arr[i] = v\<close> on a copy: past the end JavaScript extends the array with holes. A
  hole reads as \<^verbatim>\<open>undefined\<close>, which every reader of the flags treats as false.
\<close>

definition set_flag :: "bool list \<Rightarrow> nat \<Rightarrow> bool \<Rightarrow> bool list" where
  "set_flag xs i v =
     (if i < length xs then xs[i := v] else xs @ replicate (i - length xs) False @ [v])"

text \<open>The synchronous part of \<^verbatim>\<open>handleDrawerClose\<close>: mark closing, clear the open flag.\<close>

definition handleDrawerClose_mark :: "nat \<Rightarrow> ui \<Rightarrow> ui" where
  "handleDrawerClose_mark lv u =
     u\<lparr>closingDrawers := insert lv (closingDrawers u),
       openDrawers := set_flag (openDrawers u) lv False\<rparr>"

text \<open>
  The first timer of \<^verbatim>\<open>handleDrawerClose\<close>, with the stack and the hook of the render
  that created the handler. \<^verbatim>\<open>popDrawerInternal\<close> is not among the functions the hook
  returns; it is a parameter.
\<close>

definition handleDrawerClose_timeout ::
  "(hook \<Rightarrow> location option) \<Rightarrow> nat \<Rightarrow> DrawerStackItem list \<Rightarrow> hook \<Rightarrow> location option" where
  "handleDrawerClose_timeout popDrawerInternal lv stack h =
     (if int lv = int (length stack) - 1 then popDrawerInternal h
      else closeAllDrawers h)"

text \<open>The second timer: the closing mark is removed.\<close>

definition handleDrawerClose_cleanup :: "nat \<Rightarrow> ui \<Rightarrow> ui" where
  "handleDrawerClose_cleanup lv u = u\<lparr>closingDrawers := closingDrawers u - {lv}\<rparr>"

text \<open>\<^verbatim>\<open>xs.filter((_, i) => P(i))\<close>, the index counted from \<open>i\<close>.\<close>

fun filter_index :: "(nat \<Rightarrow> bool) \<Rightarrow> nat \<Rightarrow> 'a list \<Rightarrow> 'a list" where
  "filter_index P i [] = []"
| "filter_index P i (x # xs) =
     (if P i then x # filter_index P (Suc i) xs else filter_index P (Suc i) xs)"

text \<open>\<^verbatim>\<open>xs.findIndex(P)\<close>: the first index that satisfies \<open>P\<close>, or \<open>-1\<close>.\<close>

fun findIndex_from :: "('a \<Rightarrow> bool) \<Rightarrow> int \<Rightarrow> 'a list \<Rightarrow> int" where
  "findIndex_from P i [] = -1"
| "findIndex_from P i (x # xs) = (if P x then i else findIndex_from P (i + 1) xs)"

definition findIndex :: "('a \<Rightarrow> bool) \<Rightarrow> 'a list \<Rightarrow> int" where
  "findIndex P xs = findIndex_from P 0 xs"

definition effectiveStack :: "DrawerStackItem list \<Rightarrow> nat set \<Rightarrow> DrawerStackItem list" where
  "effectiveStack stack closing = filter_index (\<lambda>i. i \<notin> closing) 0 stack"

definition effectiveIndex :: "DrawerStackItem list \<Rightarrow> nat set \<Rightarrow> DrawerStackItem \<Rightarrow> int" where
  "effectiveIndex stack closing drawer =
     findIndex (\<lambda>d. item_id d = item_id drawer) (effectiveStack stack closing)"

text \<open>
  The factor of \<^verbatim>\<open>-STACK_GAP\<close> and \<^verbatim>\<open>STACK_SQUEEZE\<close> in the transform of the drawer at
  \<open>index\<close>: \<^verbatim>\<open>effectiveStack.length - 1 - effectiveIndex\<close>. The component computes it
  inside \<^verbatim>\<open>drawerStack.map\<close>, so \<open>index\<close> is a position of the stack.
\<close>

definition depthFromTop :: "DrawerStackItem list \<Rightarrow> nat set \<Rightarrow> nat \<Rightarrow> int" where
  "depthFromTop stack closing index =
     int (length (effectiveStack stack closing)) - 1
       - effectiveIndex stack closing (stack ! index)"

section \<open>Properties of the stack store\<close>

lemma getAll_append_param:
  "getAll k (append_param k' v ps) = (if k' = k then getAll k ps @ [v] else getAll k ps)"
  by (simp add: getAll_def append_param_def)

lemma getAll_delete_param_same: "getAll k (delete_param k ps) = []"
  by (induction ps) (auto simp: getAll_def delete_param_def)

lemma getAll_append_each_same: "getAll k (append_each k vs ps) = getAll k ps @ vs"
  by (induction vs arbitrary: ps) (simp_all add: getAll_append_param)

lemma others_append_param:
  "filter (\<lambda>kv. fst kv \<noteq> k) (append_param k v ps) = filter (\<lambda>kv. fst kv \<noteq> k) ps"
  by (simp add: append_param_def)

lemma others_append_each:
  "filter (\<lambda>kv. fst kv \<noteq> k) (append_each k vs ps) = filter (\<lambda>kv. fst kv \<noteq> k) ps"
  by (induction vs arbitrary: ps) (simp_all add: others_append_param)

lemma others_delete_param:
  "filter (\<lambda>kv. fst kv \<noteq> k) (delete_param k ps) = filter (\<lambda>kv. fst kv \<noteq> k) ps"
  by (simp add: delete_param_def)

lemma slice_0_m1_butlast: "slice_0_m1 xs = butlast xs"
  by (simp add: slice_0_m1_def butlast_conv_take)

lemma length_map_index: "length (map_index f i xs) = length xs"
  by (induction xs arbitrary: i) simp_all

lemma nth_map_index: "j < length xs \<Longrightarrow> map_index f i xs ! j = f (xs ! j) (i + j)"
proof (induction xs arbitrary: i j)
  case Nil
  then show ?case by simp
next
  case (Cons x xs)
  then show ?case by (cases j) simp_all
qed

lemma length_deriveStack: "length (deriveStack ps) = length ps"
  by (simp add: deriveStack_def length_map_index)

lemma nth_deriveStack:
  "i < length ps \<Longrightarrow>
   deriveStack ps ! i = \<lparr>item_id = ''drawer-'' @ string_of_nat i, path = ps ! i, level = i\<rparr>"
  by (simp add: deriveStack_def nth_map_index)

lemma map_level_deriveStack: "map level (deriveStack ps) = [0..<length ps]"
  by (rule nth_equalityI) (simp_all add: length_deriveStack nth_deriveStack)

lemma map_path_deriveStack: "map path (deriveStack ps) = ps"
  by (rule nth_equalityI) (simp_all add: length_deriveStack nth_deriveStack)

lemma delete_param_absent: "getAll k ps = [] \<Longrightarrow> delete_param k ps = ps"
  by (induction ps) (auto simp: getAll_def delete_param_def split: if_splits)

lemma persisted_step_Push: "persisted (step l (Push p)) = persisted l @ [p]"
  by (simp add: persisted_def step_def navigate_def render_def pushDrawer_def getAll_append_param)

lemma persisted_step_Pop: "persisted (step l Pop) = butlast (persisted l)"
  by (simp add: persisted_def step_def navigate_def render_def popDrawer_def Let_def
      getAll_append_each_same getAll_delete_param_same slice_0_m1_butlast)

lemma persisted_step_CloseAll: "persisted (step l CloseAll) = []"
  by (simp add: persisted_def step_def navigate_def render_def closeAllDrawers_def Let_def
      getAll_delete_param_same)

lemma persisted_step_ReplaceTop: "persisted (step l (ReplaceTop p)) = butlast (persisted l) @ [p]"
  by (simp add: persisted_def step_def navigate_def render_def replaceDrawer_def Let_def
      getAll_append_each_same getAll_delete_param_same slice_0_m1_butlast getAll_append_param)

lemma persisted_step_ReplaceAll: "persisted (step l (ReplaceAll ps)) = ps"
  by (simp add: persisted_def step_def navigate_def render_def replaceDrawerStack_def Let_def
      getAll_append_each_same getAll_delete_param_same)

lemmas persisted_step =
  persisted_step_Push persisted_step_Pop persisted_step_CloseAll persisted_step_ReplaceTop
  persisted_step_ReplaceAll

lemma run_Nil: "run l [] = l"
  by (simp add: run_def)

lemma run_Cons: "run l (m # ms) = run (step l m) ms"
  by (simp add: run_def)

lemma step_CloseAll_empty: "persisted l = [] \<Longrightarrow> step l CloseAll = l"
  by (simp add: persisted_def step_def navigate_def render_def closeAllDrawers_def
      delete_param_absent)

subsection \<open>The derived stack is a projection of the persisted list\<close>

text \<open>
  C1. For every persisted drawer list of length \<open>n\<close> the derived stack has exactly \<open>n\<close>
  entries, and the entry at index \<open>i\<close> is the record with id \<open>drawer-i\<close>, the \<open>i\<close>-th
  persisted path and level \<open>i\<close>. Hence after every sequence of push, pop, replace and
  close-all mutations the levels are \<open>0, ..., n-1\<close> and the paths of the derived entries
  are the persisted elements, in order.
\<close>

theorem drawerStack_projection:
  "length (drawerStack sp) = length (getAll ''drawer'' sp) \<and>
   (\<forall>i < length (getAll ''drawer'' sp).
      drawerStack sp ! i =
        \<lparr>item_id = ''drawer-'' @ string_of_nat i, path = getAll ''drawer'' sp ! i, level = i\<rparr>) \<and>
   map level (drawerStack (search (run l ms))) = [0..<length (persisted (run l ms))] \<and>
   map path (drawerStack (search (run l ms))) = persisted (run l ms)"
  by (simp add: drawerStack_def persisted_def length_deriveStack nth_deriveStack
      map_level_deriveStack map_path_deriveStack)

lemmas store_eval =
  run_def step_def navigate_def render_def pushDrawer_def popDrawer_def closeAllDrawers_def
  replaceDrawer_def replaceDrawerStack_def append_param_def delete_param_def getAll_def
  slice_0_m1_def persisted_def drawerStack_def deriveStack_def currentDrawer_def
  string_of_nat.simps digit_char_def

theorem drawerStack_projection_witness:
  "(1::nat) < length (getAll ''drawer'' [(''drawer'', ''/a''), (''tab'', ''x''), (''drawer'', ''/b'')]) \<and>
   drawerStack [(''drawer'', ''/a''), (''tab'', ''x''), (''drawer'', ''/b'')] ! 1 =
     \<lparr>item_id = ''drawer-1'', path = ''/b'', level = 1\<rparr> \<and>
   map level (drawerStack (search (run \<lparr>pathname = ''/home'', search = [(''tab'', ''x'')]\<rparr>
       [Push ''/a'', Push ''/b'', Pop, ReplaceTop ''/c'', Push ''/c'']))) = [0, 1] \<and>
   map path (drawerStack (search (run \<lparr>pathname = ''/home'', search = [(''tab'', ''x'')]\<rparr>
       [Push ''/a'', Push ''/b'', Pop, ReplaceTop ''/c'', Push ''/c'']))) = [''/c'', ''/c'']"
proof -
  let ?sp = "[(''drawer'', ''/a''), (''tab'', ''x''), (''drawer'', ''/b'')]"
  let ?l = "\<lparr>pathname = ''/home'', search = [(''tab'', ''x'')]\<rparr>"
  let ?ms = "[Push ''/a'', Push ''/b'', Pop, ReplaceTop ''/c'', Push ''/c'']"
  have ga: "getAll ''drawer'' ?sp = [''/a'', ''/b'']"
    by (simp add: getAll_def)
  have r: "persisted (run ?l ?ms) = [''/c'', ''/c'']"
    by (simp add: store_eval)
  have s: "string_of_nat (Suc 0) = ''1''"
    by (simp add: string_of_nat.simps digit_char_def)
  note t = drawerStack_projection [of ?sp ?l ?ms, unfolded ga r]
  from t have "drawerStack ?sp ! 1 =
      \<lparr>item_id = ''drawer-'' @ string_of_nat 1, path = [''/a'', ''/b''] ! 1, level = 1\<rparr>"
    by simp
  moreover from t have "map level (drawerStack (search (run ?l ?ms))) = [0, 1]"
    by (simp add: upt_rec)
  moreover from t have "map path (drawerStack (search (run ?l ?ms))) = [''/c'', ''/c'']"
    by simp
  ultimately show ?thesis
    by (simp add: ga s)
qed

lemma step_Pop_empty: "persisted l = [] \<Longrightarrow> step l Pop = l"
  by (simp add: persisted_def step_def navigate_def render_def popDrawer_def)

subsection \<open>Pop and close-all\<close>

text \<open>
  C7. \<open>pop\<close> removes exactly the last element of the persisted list. On an empty list it
  returns without navigating, so the location stays as it is. \<open>closeAll\<close> on an empty
  stack navigates to the location it started from, and a second \<open>closeAll\<close> changes
  nothing that the first has not already done: the persisted list is empty after either.
\<close>

theorem pop_and_closeAll:
  "persisted (step l Pop) = butlast (persisted l) \<and>
   (persisted l = [] \<longrightarrow> popDrawer (render l) = None \<and> step l Pop = l) \<and>
   (persisted l = [] \<longrightarrow> closeAllDrawers (render l) = Some l \<and> step l CloseAll = l) \<and>
   persisted (step l CloseAll) = [] \<and>
   step (step l CloseAll) CloseAll = step l CloseAll"
proof -
  have "popDrawer (render l) = None" if "persisted l = []"
    using that by (simp add: persisted_def render_def popDrawer_def)
  moreover have "closeAllDrawers (render l) = Some l" if "persisted l = []"
    using that
    by (simp add: persisted_def render_def closeAllDrawers_def delete_param_absent)
  ultimately show ?thesis
    by (simp add: persisted_step step_Pop_empty step_CloseAll_empty)
qed

theorem pop_and_closeAll_witness:
  "persisted \<lparr>pathname = ''/home'', search = [(''tab'', ''x'')]\<rparr> = [] \<and>
   popDrawer (render \<lparr>pathname = ''/home'', search = [(''tab'', ''x'')]\<rparr>) = None \<and>
   step \<lparr>pathname = ''/home'', search = [(''tab'', ''x'')]\<rparr> Pop =
     \<lparr>pathname = ''/home'', search = [(''tab'', ''x'')]\<rparr> \<and>
   closeAllDrawers (render \<lparr>pathname = ''/home'', search = [(''tab'', ''x'')]\<rparr>) =
     Some \<lparr>pathname = ''/home'', search = [(''tab'', ''x'')]\<rparr> \<and>
   step \<lparr>pathname = ''/home'', search = [(''tab'', ''x'')]\<rparr> CloseAll =
     \<lparr>pathname = ''/home'', search = [(''tab'', ''x'')]\<rparr>"
proof -
  let ?l = "\<lparr>pathname = ''/home'', search = [(''tab'', ''x'')]\<rparr>"
  have e: "persisted ?l = []"
    by (simp add: persisted_def getAll_def)
  from pop_and_closeAll [of ?l] e show ?thesis
    by simp
qed

subsection \<open>Push\<close>

text \<open>
  C8. \<open>push\<close> appends its path to the query string read from the window at call time;
  the search parameters captured by the render play no part. Duplicates are kept. From
  an empty stack, pushing \<open>/a\<close> and then \<open>/b\<close> gives the persisted list \<open>[/a, /b]\<close> with
  \<open>/b\<close> on top, and one pop then gives \<open>[/a]\<close>.
\<close>

theorem pushDrawer_appends:
  "pushDrawer h p =
     Some \<lparr>pathname = loc_pathname h, search = window_search h @ [(''drawer'', p)]\<rparr> \<and>
   pushDrawer (h\<lparr>searchParams := stale\<rparr>) p = pushDrawer h p \<and>
   persisted (step l (Push p)) = persisted l @ [p] \<and>
   persisted (run l [Push p, Push p]) = persisted l @ [p, p] \<and>
   (persisted l = [] \<longrightarrow>
      persisted (run l [Push ''/a'', Push ''/b'']) = [''/a'', ''/b''] \<and>
      map_option path (currentDrawer (search (run l [Push ''/a'', Push ''/b'']))) = Some ''/b'' \<and>
      persisted (run l [Push ''/a'', Push ''/b'', Pop]) = [''/a''])"
proof -
  have cur: "map_option path (currentDrawer (search l')) = Some (last (persisted l'))"
    if "persisted l' \<noteq> []" for l'
  proof -
    from that have n: "deriveStack (persisted l') \<noteq> []"
      using length_deriveStack [of "persisted l'"] by auto
    have "path (deriveStack (persisted l') ! (length (persisted l') - 1)) =
        persisted l' ! (length (persisted l') - 1)"
      using that by (simp add: nth_deriveStack)
    with n that show ?thesis
      by (simp add: currentDrawer_def drawerStack_def persisted_def [symmetric] Let_def
          length_deriveStack last_conv_nth)
  qed
  show ?thesis
    by (simp add: pushDrawer_def append_param_def persisted_step run_Cons run_Nil cur)
qed

theorem pushDrawer_appends_witness:
  "persisted \<lparr>pathname = ''/home'', search = []\<rparr> = [] \<and>
   persisted (run \<lparr>pathname = ''/home'', search = []\<rparr> [Push ''/a'', Push ''/b'']) = [''/a'', ''/b''] \<and>
   map_option path (currentDrawer (search (run \<lparr>pathname = ''/home'', search = []\<rparr>
      [Push ''/a'', Push ''/b'']))) = Some ''/b'' \<and>
   persisted (run \<lparr>pathname = ''/home'', search = []\<rparr> [Push ''/a'', Push ''/b'', Pop]) = [''/a'']"
proof -
  let ?l = "\<lparr>pathname = ''/home'', search = []\<rparr>"
  have e: "persisted ?l = []"
    by (simp add: persisted_def getAll_def)
  from pushDrawer_appends [of _ _ _ ?l] e show ?thesis
    by simp
qed

subsection \<open>Replace top\<close>

text \<open>
  C9. \<open>replaceDrawer\<close> replaces exactly the last element of the persisted list and keeps
  the earlier ones in order; on an empty list it appends. It always navigates, so
  \<open>replaceDrawer '/x'\<close> on an empty stack gives \<open>[/x]\<close>.
\<close>

theorem replaceDrawer_top:
  "replaceDrawer h p \<noteq> None \<and>
   persisted (step l (ReplaceTop p)) = butlast (persisted l) @ [p] \<and>
   (persisted l = [] \<longrightarrow> persisted (step l (ReplaceTop ''/x'')) = [''/x''])"
  by (simp add: persisted_step replaceDrawer_def Let_def)

theorem replaceDrawer_top_witness:
  "persisted \<lparr>pathname = ''/home'', search = [(''tab'', ''x'')]\<rparr> = [] \<and>
   persisted (step \<lparr>pathname = ''/home'', search = [(''tab'', ''x'')]\<rparr> (ReplaceTop ''/x'')) = [''/x'']"
proof -
  let ?l = "\<lparr>pathname = ''/home'', search = [(''tab'', ''x'')]\<rparr>"
  have e: "persisted ?l = []"
    by (simp add: persisted_def getAll_def)
  from replaceDrawer_top [of _ _ ?l] e show ?thesis
    by simp
qed

subsection \<open>Frame: only the drawer parameter changes\<close>

text \<open>
  C10. Whatever location a mutator navigates to, called from the render of the current
  location, has the pathname of the current location and the same parameters, in the
  same order, under every key other than \<open>drawer\<close>. In terms of what a render closes
  over: the pathname is the one of \<^verbatim>\<open>useLocation\<close>, and the other parameters are those of
  the window's query string for \<open>pushDrawer\<close> and of \<^verbatim>\<open>useSearchParams\<close> for the rest.
\<close>

theorem mutators_frame:
  "(mutate (render l) m = Some l' \<longrightarrow>
      pathname l' = pathname l \<and>
      filter (\<lambda>kv. fst kv \<noteq> ''drawer'') (search l') =
        filter (\<lambda>kv. fst kv \<noteq> ''drawer'') (search l)) \<and>
   (mutate h m = Some l'' \<longrightarrow>
      pathname l'' = loc_pathname h \<and>
      filter (\<lambda>kv. fst kv \<noteq> ''drawer'') (search l'') =
        filter (\<lambda>kv. fst kv \<noteq> ''drawer'')
          (case m of Push p \<Rightarrow> window_search h | _ \<Rightarrow> searchParams h))"
  by (cases m)
    (auto simp: render_def pushDrawer_def popDrawer_def closeAllDrawers_def replaceDrawer_def
      replaceDrawerStack_def Let_def others_append_param others_append_each others_delete_param
      split: if_splits)

theorem mutators_frame_witness:
  "mutate (render \<lparr>pathname = ''/home'', search = [(''tab'', ''x''), (''drawer'', ''/a''), (''q'', ''1'')]\<rparr>)
     (ReplaceTop ''/b'') =
     Some \<lparr>pathname = ''/home'', search = [(''tab'', ''x''), (''q'', ''1''), (''drawer'', ''/b'')]\<rparr> \<and>
   pathname \<lparr>pathname = ''/home'', search = [(''tab'', ''x''), (''q'', ''1''), (''drawer'', ''/b'')]\<rparr> = ''/home'' \<and>
   filter (\<lambda>kv. fst kv \<noteq> ''drawer'') [(''tab'', ''x''), (''q'', ''1''), (''drawer'', ''/b'')] =
   filter (\<lambda>kv. fst kv \<noteq> ''drawer'') [(''tab'', ''x''), (''drawer'', ''/a''), (''q'', ''1'')]"
proof -
  let ?l = "\<lparr>pathname = ''/home'', search = [(''tab'', ''x''), (''drawer'', ''/a''), (''q'', ''1'')]\<rparr>"
  let ?l' = "\<lparr>pathname = ''/home'', search = [(''tab'', ''x''), (''q'', ''1''), (''drawer'', ''/b'')]\<rparr>"
  have m: "mutate (render ?l) (ReplaceTop ''/b'') = Some ?l'"
    by (simp add: store_eval)
  from mutators_frame [of ?l "ReplaceTop ''/b''" ?l'] m show ?thesis
    by simp
qed

section \<open>Properties of the route resolver\<close>

lemma split_query_0_append: "split_query_0 (split_query_0 p @ CHR ''?'' # q) = split_query_0 p"
  by (induction p) (simp_all add: split_query_0_def)

lemma find_loop_None:
  "find_loop mp pn routes = None \<longleftrightarrow>
   (\<forall>r \<in> set routes. truthy (route_path r) \<longrightarrow> mp (the (route_path r)) True pn = None)"
  by (induction routes) (auto split: option.splits)

lemma find_loop_Some:
  "find_loop mp pn routes = Some (r, m) \<Longrightarrow>
   \<exists>pre post. routes = pre @ r # post \<and> truthy (route_path r) \<and>
     mp (the (route_path r)) True pn = Some m \<and>
     (\<forall>r' \<in> set pre. truthy (route_path r') \<longrightarrow> mp (the (route_path r')) True pn = None)"
proof (induction routes)
  case Nil
  then show ?case by simp
next
  case (Cons x xs)
  show ?case
  proof (cases "truthy (route_path x) \<and> mp (the (route_path x)) True pn \<noteq> None")
    case True
    with Cons.prems have "x = r" "mp (the (route_path x)) True pn = Some m"
      by (auto split: option.splits)
    with True have "x # xs = [] @ r # xs \<and> truthy (route_path r) \<and>
        mp (the (route_path r)) True pn = Some m \<and>
        (\<forall>r' \<in> set []. truthy (route_path r') \<longrightarrow> mp (the (route_path r')) True pn = None)"
      by simp
    then show ?thesis by blast
  next
    case False
    with Cons.prems have "find_loop mp pn xs = Some (r, m)"
      by (auto split: option.splits if_splits)
    from Cons.IH [OF this] obtain pre post where
      p: "xs = pre @ r # post" "truthy (route_path r)" "mp (the (route_path r)) True pn = Some m"
      "\<forall>r' \<in> set pre. truthy (route_path r') \<longrightarrow> mp (the (route_path r')) True pn = None"
      by blast
    from p False have "x # xs = (x # pre) @ r # post \<and> truthy (route_path r) \<and>
        mp (the (route_path r)) True pn = Some m \<and>
        (\<forall>r' \<in> set (x # pre). truthy (route_path r') \<longrightarrow> mp (the (route_path r')) True pn = None)"
      by auto
    then show ?thesis by blast
  qed
qed

lemma find_loop_first:
  "(\<forall>r' \<in> set pre. truthy (route_path r') \<longrightarrow> mp (the (route_path r')) True pn = None) \<Longrightarrow>
   truthy (route_path r) \<Longrightarrow> mp (the (route_path r)) True pn = Some m \<Longrightarrow>
   find_loop mp pn (pre @ r # post) = Some (r, m)"
  by (induction pre) simp_all

lemma flattenRoutes_routeConfig:
  "flattenRoutes routeConfig [] =
     [RouteObject (Some ''/'') (Some RootLayout)
        [RouteObject (Some '''') (Some RootPage) [],
         RouteObject (Some ''profile'') (Some ProfilePage) [],
         RouteObject (Some ''settings'') (Some SettingsPage) []],
      RouteObject (Some ''/'') (Some RootPage) [],
      RouteObject (Some ''/profile'') (Some ProfilePage) [],
      RouteObject (Some ''/settings'') (Some SettingsPage) []]"
  by (simp add: routeConfig_def fullPath_def truthy_def)

subsection \<open>Resolution\<close>

text \<open>
  C6. Resolution strips the query suffix before matching, so \<open>/profile?x=1\<close> resolves as
  \<open>/profile\<close> does. Every candidate is matched with \<open>end\<close> set, against the whole
  stripped path: where the matcher, asked for a match to the end, accepts \<open>/profile\<close> and
  rejects \<open>/profile/edit\<close> for the pattern \<open>/profile\<close>, so does resolution. The result
  is the first entry of the flattened list that has a path and matches, and there is no
  result exactly when no such entry matches. Flattening lists a route before its
  children and the children before the route's later siblings.
\<close>

theorem findRouteAndMatch_resolution:
  "findRouteAndMatch mp (split_query_0 p @ CHR ''?'' # q) routes = findRouteAndMatch mp p routes \<and>
   findRouteAndMatch mp ''/profile?x=1'' routes = findRouteAndMatch mp ''/profile'' routes \<and>
   (findRouteAndMatch mp p routes = None \<longleftrightarrow>
      (\<forall>r \<in> set routes. truthy (route_path r) \<longrightarrow>
         mp (the (route_path r)) True (split_query_0 p) = None)) \<and>
   flattenRoutes (RouteObject rp e' cs # rs) parent =
     RouteObject (Some (fullPath parent rp)) e' cs # flattenRoutes cs (fullPath parent rp) @
     flattenRoutes rs parent \<and>
   ((\<forall>r' \<in> set pre. truthy (route_path r') \<longrightarrow>
        mp (the (route_path r')) True (split_query_0 p) = None) \<and>
    truthy (route_path r) \<and> mp (the (route_path r)) True (split_query_0 p) = Some m \<longrightarrow>
      findRouteAndMatch mp p (pre @ r # post) = Some (r, m)) \<and>
   (mp ''/profile'' True ''/profile'' = Some m0 \<and> mp ''/profile'' True ''/profile/edit'' = None \<longrightarrow>
      findRouteAndMatch mp ''/profile'' (flattenRoutes [RouteObject (Some ''/profile'') e []] []) =
        Some (RouteObject (Some ''/profile'') e [], m0) \<and>
      findRouteAndMatch mp ''/profile/edit'' (flattenRoutes [RouteObject (Some ''/profile'') e []] []) =
        None)"
proof -
  have 1: "findRouteAndMatch mp (split_query_0 p @ CHR ''?'' # q) routes = findRouteAndMatch mp p routes"
    by (simp add: findRouteAndMatch_def split_query_0_append)
  have 2: "findRouteAndMatch mp ''/profile?x=1'' routes = findRouteAndMatch mp ''/profile'' routes"
    by (simp add: findRouteAndMatch_def split_query_0_def)
  have 3: "findRouteAndMatch mp p routes = None \<longleftrightarrow>
      (\<forall>r \<in> set routes. truthy (route_path r) \<longrightarrow>
         mp (the (route_path r)) True (split_query_0 p) = None)"
    by (simp add: findRouteAndMatch_def find_loop_None)
  have 4: "(\<forall>r' \<in> set pre. truthy (route_path r') \<longrightarrow>
        mp (the (route_path r')) True (split_query_0 p) = None) \<and>
    truthy (route_path r) \<and> mp (the (route_path r)) True (split_query_0 p) = Some m \<longrightarrow>
      findRouteAndMatch mp p (pre @ r # post) = Some (r, m)"
    unfolding findRouteAndMatch_def using find_loop_first [of pre mp "split_query_0 p" r m post]
    by blast
  have f: "flattenRoutes [RouteObject (Some ''/profile'') e []] [] = [RouteObject (Some ''/profile'') e []]"
    by (simp add: fullPath_def truthy_def)
  have 6: "mp ''/profile'' True ''/profile'' = Some m0 \<and> mp ''/profile'' True ''/profile/edit'' = None \<longrightarrow>
      findRouteAndMatch mp ''/profile'' (flattenRoutes [RouteObject (Some ''/profile'') e []] []) =
        Some (RouteObject (Some ''/profile'') e [], m0) \<and>
      findRouteAndMatch mp ''/profile/edit'' (flattenRoutes [RouteObject (Some ''/profile'') e []] []) =
        None"
    unfolding f by (simp add: findRouteAndMatch_def split_query_0_def truthy_def)
  have 5: "flattenRoutes (RouteObject rp e' cs # rs) parent =
     RouteObject (Some (fullPath parent rp)) e' cs # flattenRoutes cs (fullPath parent rp) @
     flattenRoutes rs parent"
    by simp
  from 1 2 3 4 5 6 show ?thesis by blast
qed

theorem findRouteAndMatch_resolution_witness:
  "literal_matchPath ''/profile'' True ''/profile'' = Some ''/profile'' \<and>
   literal_matchPath ''/profile'' True ''/profile/edit'' = None \<and>
   literal_matchPath ''/'' True ''/profile'' = None \<and>
   findRouteAndMatch literal_matchPath ''/profile''
     (flattenRoutes [RouteObject (Some ''/profile'') (Some ProfilePage) []] []) =
     Some (RouteObject (Some ''/profile'') (Some ProfilePage) [], ''/profile'') \<and>
   findRouteAndMatch literal_matchPath ''/profile/edit''
     (flattenRoutes [RouteObject (Some ''/profile'') (Some ProfilePage) []] []) = None \<and>
   findRouteAndMatch literal_matchPath ''/profile?x=1'' (flattenRoutes routeConfig []) =
     Some (RouteObject (Some ''/profile'') (Some ProfilePage) [], ''/profile'')"
proof -
  let ?root = "RouteObject (Some ''/'') (Some RootLayout)
        [RouteObject (Some '''') (Some RootPage) [],
         RouteObject (Some ''profile'') (Some ProfilePage) [],
         RouteObject (Some ''settings'') (Some SettingsPage) []]"
  let ?pre = "[?root, RouteObject (Some ''/'') (Some RootPage) []]"
  let ?r = "RouteObject (Some ''/profile'') (Some ProfilePage) []"
  let ?post = "[RouteObject (Some ''/settings'') (Some SettingsPage) []]"
  have fl: "flattenRoutes routeConfig [] = ?pre @ ?r # ?post"
    by (simp add: flattenRoutes_routeConfig)
  have m: "literal_matchPath ''/profile'' True ''/profile'' = Some ''/profile''"
    "literal_matchPath ''/profile'' True ''/profile/edit'' = None"
    "literal_matchPath ''/'' True ''/profile'' = None"
    by (simp_all add: literal_matchPath_def)
  have sq: "split_query_0 ''/profile?x=1'' = ''/profile''"
    by (simp add: split_query_0_def)
  have pre: "\<forall>r' \<in> set ?pre. truthy (route_path r') \<longrightarrow>
      literal_matchPath (the (route_path r')) True (split_query_0 ''/profile?x=1'') = None"
    by (simp add: sq m)
  have r: "truthy (route_path ?r)"
    "literal_matchPath (the (route_path ?r)) True (split_query_0 ''/profile?x=1'') = Some ''/profile''"
    by (simp_all add: truthy_def sq m)
  note t = findRouteAndMatch_resolution
    [where mp = literal_matchPath and p = "''/profile?x=1''" and pre = ?pre and r = ?r
      and m = "''/profile''" and post = ?post and ?m0.0 = "''/profile''" and e = "Some ProfilePage"]
  from t pre r have "findRouteAndMatch literal_matchPath ''/profile?x=1'' (?pre @ ?r # ?post) =
      Some (?r, ''/profile'')"
    by blast
  moreover from t m have
    "findRouteAndMatch literal_matchPath ''/profile''
       (flattenRoutes [RouteObject (Some ''/profile'') (Some ProfilePage) []] []) =
       Some (RouteObject (Some ''/profile'') (Some ProfilePage) [], ''/profile'')"
    "findRouteAndMatch literal_matchPath ''/profile/edit''
       (flattenRoutes [RouteObject (Some ''/profile'') (Some ProfilePage) []] []) = None"
    by blast+
  ultimately show ?thesis
    using m by (simp add: fl)
qed

subsection \<open>Root rejection\<close>

text \<open>
  C5, as stated, fails for the empty path: it is resolved like any other path, and with
  the example configuration it is not found.
\<close>

theorem root_rejected_counterexample:
  "DrawerContent literal_matchPath '''' routeConfig = NotFound ''''"
  by (simp add: DrawerContent_def findRouteAndMatch_def split_query_0_def flattenRoutes_routeConfig
      truthy_def literal_matchPath_def)

text \<open>
  C5, amended. Resolving the literal root path \<open>/\<close> gives the root placeholder and never
  a resolved view, whatever the route tree holds and whatever the matcher would match.
\<close>

theorem root_rejected:
  "DrawerContent mp ''/'' routes = RootRejected"
  by (simp add: DrawerContent_def)

text \<open>
  The guard compares the whole drawer path, query suffix included, while resolution
  strips the suffix: the root path with a query passes the guard and, in the example
  configuration, resolves to the root layout.
\<close>

lemma root_with_query_resolves:
  "DrawerContent literal_matchPath ''/?x=1'' routeConfig = Resolved RootLayout ''/''"
  by (simp add: DrawerContent_def findRouteAndMatch_def split_query_0_def flattenRoutes_routeConfig
      truthy_def literal_matchPath_def)

section \<open>Properties of the gesture recognizer\<close>

lemma expo_examples:
  "expo (3 / 10) = - 2" "expo 3 = 1" "expo 4 = 2" "expo 428 = 8" "expo (1142 / 5) = 7"
  by (simp_all add: expo.simps)

lemma binary64_0_3: "binary64 0.3 = 5404319552844595 / 2 ^ 54"
  by (simp add: binary64_def expo_examples pow2_def round_half_even_def Let_def)

lemma binary64_small_integers: "binary64 3 = 3" "binary64 4 = 4"
  by (simp_all add: binary64_def expo_examples pow2_def round_half_even_def Let_def)

lemma js_sub_examples: "js_sub 103 100 = 3" "js_sub 104 100 = 4"
  by (simp_all add: js_sub_def binary64_small_integers)

lemma js_mul_10_0_3: "js_mul 10 (binary64 0.3) = 3"
  by (simp add: js_mul_def binary64_0_3)
    (simp add: binary64_def expo.simps pow2_def round_half_even_def Let_def)

text \<open>
  C3, as stated, fails at the boundary: a press at 100 on the body of a panel of extent
  10, moved to 103, is released at exactly 30 percent, in exact arithmetic and as the
  code computes it, and the release cancels. The offset is reset and the only call is
  the release notification.
\<close>

theorem drag_threshold_counterexample:
  "max 0 (103 - 100) = (10::real) * 0.3 \<and>
   max 0 (js_sub 103 100) = js_mul 10 (binary64 0.3) \<and>
   handleDragEnd True
     (fst (handleDragMove 103 (fst (handleDragStart False 100 (Some 10) initial_drag_state)))) =
     (\<lparr>isDragging = False, dragOffset = 0, dragStartY = None, initialHeight = 10,
        lastEvent = False\<rparr>, [OnRelease True])"
  by (simp add: handleDragEnd_def handleDragMove_def handleDragStart_def initial_drag_state_def
      js_sub_examples js_mul_10_0_3)

text \<open>
  C3, amended. For a drag that starts on the panel body (dragging not restricted to the
  handle), releasing requests the close exactly when the clamped delta is strictly more
  than the threshold the code computes for 30 percent of the extent recorded at drag
  start, the binary64 product of the extent and \<^verbatim>\<open>0.3\<close>. At that threshold or below it
  the release cancels: the drag offset is reset to 0 and no close is requested. The same
  holds of \<open>handleDragEnd\<close> in any dragging state, for the offset and the extent it finds
  there, and the panel is no longer dragging afterwards.
\<close>

theorem handleDragEnd_threshold:
  "(isDragging s \<longrightarrow>
      (OnOpenChange False \<in> set (snd (handleDragEnd ev s)) \<longleftrightarrow>
         dragOffset s > js_mul (initialHeight s) (binary64 0.3)) \<and>
      (dragOffset s \<le> js_mul (initialHeight s) (binary64 0.3) \<longrightarrow>
         dragOffset (fst (handleDragEnd ev s)) = 0 \<and>
         (\<forall>b. OnOpenChange b \<notin> set (snd (handleDragEnd ev s)))) \<and>
      \<not> isDragging (fst (handleDragEnd ev s))) \<and>
   (let pressed = fst (handleDragStart False y0 (Some h) s0);
        moved = fst (handleDragMove y pressed);
        released = handleDragEnd ev moved
    in (OnOpenChange False \<in> set (snd released) \<longleftrightarrow>
          max 0 (js_sub y y0) > js_mul h (binary64 0.3)) \<and>
       (max 0 (js_sub y y0) \<le> js_mul h (binary64 0.3) \<longrightarrow>
          dragOffset (fst released) = 0 \<and> (\<forall>b. OnOpenChange b \<notin> set (snd released))))"
  by (auto simp: handleDragEnd_def handleDragMove_def handleDragStart_def Let_def)

theorem handleDragEnd_threshold_witness:
  "isDragging \<lparr>isDragging = True, dragOffset = 3, dragStartY = Some 100, initialHeight = 10,
       lastEvent = True\<rparr> \<and>
   (3::real) \<le> js_mul 10 (binary64 0.3) \<and>
   dragOffset (fst (handleDragEnd True \<lparr>isDragging = True, dragOffset = 3, dragStartY = Some 100,
       initialHeight = 10, lastEvent = True\<rparr>)) = 0 \<and>
   OnOpenChange False \<notin> set (snd (handleDragEnd True \<lparr>isDragging = True, dragOffset = 3,
       dragStartY = Some 100, initialHeight = 10, lastEvent = True\<rparr>)) \<and>
   max 0 (js_sub 103 100) \<le> js_mul 10 (binary64 0.3) \<and>
   dragOffset (fst (handleDragEnd True (fst (handleDragMove 103
       (fst (handleDragStart False 100 (Some 10) initial_drag_state)))))) = 0 \<and>
   max 0 (js_sub 104 100) > js_mul 10 (binary64 0.3) \<and>
   OnOpenChange False \<in> set (snd (handleDragEnd True (fst (handleDragMove 104
       (fst (handleDragStart False 100 (Some 10) initial_drag_state))))))"
proof -
  let ?s = "\<lparr>isDragging = True, dragOffset = 3, dragStartY = Some 100, initialHeight = 10,
       lastEvent = True\<rparr>"
  have a: "isDragging ?s" "dragOffset ?s \<le> js_mul (initialHeight ?s) (binary64 0.3)"
    by (simp_all add: js_mul_10_0_3)
  have b: "max 0 (js_sub 103 100) \<le> js_mul 10 (binary64 0.3)"
    "max 0 (js_sub 104 100) > js_mul 10 (binary64 0.3)"
    by (simp_all add: js_sub_examples js_mul_10_0_3)
  from handleDragEnd_threshold [of ?s True] a
  have "dragOffset (fst (handleDragEnd True ?s)) = 0"
    "OnOpenChange False \<notin> set (snd (handleDragEnd True ?s))"
    by blast+
  moreover from handleDragEnd_threshold [of _ True 100 10 initial_drag_state 103] b(1)
  have "dragOffset (fst (handleDragEnd True (fst (handleDragMove 103
       (fst (handleDragStart False 100 (Some 10) initial_drag_state)))))) = 0"
    unfolding Let_def by blast
  moreover from handleDragEnd_threshold [of _ True 100 10 initial_drag_state 104] b(2)
  have "OnOpenChange False \<in> set (snd (handleDragEnd True (fst (handleDragMove 104
       (fst (handleDragStart False 100 (Some 10) initial_drag_state))))))"
    unfolding Let_def by blast
  ultimately show ?thesis
    using a b by simp
qed

text \<open>
  Rounding decides releases next to the boundary. On a panel of extent 428, a press at
  100 released at the binary64 value of 228.4: the delta and the threshold round to the
  same number, and the release cancels.
\<close>

lemma drag_release_extent_428:
  "js_sub (binary64 (1142 / 5)) 100 = js_mul 428 (binary64 0.3) \<and>
   snd (handleDragEnd True (fst (handleDragMove (binary64 (1142 / 5))
     (fst (handleDragStart False 100 (Some 428) initial_drag_state))))) = [OnRelease True]"
proof -
  have x: "binary64 (1142 / 5) = 8036110585089229 / 2 ^ 45"
    by (simp add: binary64_def expo_examples pow2_def round_half_even_def Let_def)
  have d: "js_sub (binary64 (1142 / 5)) 100 = 4517673376206029 / 2 ^ 45"
    unfolding x by (simp add: js_sub_def binary64_def expo.simps pow2_def round_half_even_def Let_def)
  have t: "js_mul 428 (binary64 0.3) = 4517673376206029 / 2 ^ 45"
    unfolding binary64_0_3
    by (simp add: js_mul_def binary64_def expo.simps pow2_def round_half_even_def Let_def)
  show ?thesis
    by (simp add: handleDragEnd_def handleDragMove_def handleDragStart_def initial_drag_state_def
        Let_def d t)
qed

text \<open>
  A drag that starts on the handle never records the extent in the content: released
  after any downward movement, the content's \<open>handleDragEnd\<close> compares the offset with 0
  and requests the close.
\<close>

lemma handle_drag_release:
  "0 < js_sub y y0 \<Longrightarrow>
   OnOpenChange False \<in> set (snd (handleDragEnd ev
     (fst (fst (DrawerHandle_handleDragMove y
       (fst (DrawerHandle_handleDragStart y0 (Some h) (initial_drag_state, r))))))))"
  by (simp add: handleDragEnd_def DrawerHandle_handleDragMove_def
      DrawerHandle_handleDragStart_def initial_drag_state_def Let_def js_mul_def binary64_def)

section \<open>Properties of the choreographer\<close>

lemma string_of_nat_digits:
  "string_of_nat 0 = ''0''" "string_of_nat (Suc 0) = ''1''" "string_of_nat (Suc (Suc 0)) = ''2''"
  by (simp_all add: string_of_nat.simps digit_char_def)

lemma deriveStack_3:
  "deriveStack [a, b, c] =
     [\<lparr>item_id = ''drawer-0'', path = a, level = 0\<rparr>,
      \<lparr>item_id = ''drawer-1'', path = b, level = 1\<rparr>,
      \<lparr>item_id = ''drawer-2'', path = c, level = 2\<rparr>]"
  by (simp add: deriveStack_def string_of_nat_digits numeral_2_eq_2)

subsection \<open>Depth over the effective stack\<close>

text \<open>
  C4, as stated, fails: with the middle of three levels closing, the depth of the top
  level is not one less than before. It was 0 and stays 0.
\<close>

theorem depth_exclusion_counterexample:
  "depthFromTop (deriveStack [''/a'', ''/b'', ''/c'']) {1} 2 \<noteq>
   depthFromTop (deriveStack [''/a'', ''/b'', ''/c'']) {} 2 - 1"
  by (simp add: deriveStack_3 depthFromTop_def effectiveStack_def effectiveIndex_def findIndex_def)

text \<open>
  C4, amended. In every stack of three levels, marking the middle level as closing, with
  the persisted stack unchanged, takes the depth from the top of the bottom level from
  2 to 1 at once; the depth of the top level is 0 before and after.
\<close>

theorem depth_exclusion:
  "closingDrawers (handleDrawerClose_mark 1 (u\<lparr>closingDrawers := {}\<rparr>)) = {1} \<and>
   depthFromTop (deriveStack [a, b, c]) {} 0 = 2 \<and>
   depthFromTop (deriveStack [a, b, c]) {1} 0 = 1 \<and>
   depthFromTop (deriveStack [a, b, c]) {} 2 = 0 \<and>
   depthFromTop (deriveStack [a, b, c]) {1} 2 = 0"
  by (simp add: deriveStack_3 depthFromTop_def effectiveStack_def effectiveIndex_def findIndex_def
      handleDrawerClose_mark_def)

subsection \<open>Closing below the top\<close>

text \<open>
  C2. Closing level 1 of the stack \<open>/a, /b, /c\<close>: the timer of the close sequence takes
  the branch for a level below the top, which calls \<open>closeAllDrawers\<close>. The persisted list
  is empty afterwards, level 0 included.
\<close>

theorem mid_stack_close_clears_stack:
  "persisted \<lparr>pathname = ''/home'',
      search = [(''drawer'', ''/a''), (''drawer'', ''/b''), (''drawer'', ''/c'')]\<rparr> =
     [''/a'', ''/b'', ''/c''] \<and>
   persisted
     (navigate
        \<lparr>pathname = ''/home'',
          search = [(''drawer'', ''/a''), (''drawer'', ''/b''), (''drawer'', ''/c'')]\<rparr>
        (handleDrawerClose_timeout popDrawer 1
           (drawerStack [(''drawer'', ''/a''), (''drawer'', ''/b''), (''drawer'', ''/c'')])
           (render \<lparr>pathname = ''/home'',
              search = [(''drawer'', ''/a''), (''drawer'', ''/b''), (''drawer'', ''/c'')]\<rparr>))) = []"
  by (simp add: handleDrawerClose_timeout_def length_deriveStack drawerStack_def store_eval)

end
